theory Spec2Isabelle
  imports Main "HOL-Library.Sublist"
begin

section \<open>Values of the Python program\<close>

text \<open>
  The program is \<^verbatim>\<open>src/dialogue_summarizer.py\<close>: the class \<^verbatim>\<open>DialogueSummarizer\<close>.
  A Python \<^verbatim>\<open>str\<close> is modelled as a \<^typ>\<open>string\<close> holding its UTF-8 encoding; every literal
  of the prompt builder is ASCII, the two diagnostic messages of \<^verbatim>\<open>load_model\<close> start with
  one non-ASCII sign each, written out as its three bytes.

  Everything the \<^verbatim>\<open>transformers\<close> library hands back (the model, the tokenizer, the
  encoding of a prompt, tensors of token ids) is an opaque object: the program only stores
  such objects and passes them back to the library.
\<close>

datatype obj = Obj nat

datatype pyval = PStr string | PInt int | PBool bool

type_synonym kwargs = "(string \<times> pyval) list"

text \<open>
  What a call can raise. Every constructor carries \<^verbatim>\<open>str(e)\<close>. \<^verbatim>\<open>TypeError\<close> and
  \<^verbatim>\<open>AttributeError\<close> are the two classes the interpreter itself raises in this program
  (calling \<^verbatim>\<open>None\<close>, reading an attribute of \<^verbatim>\<open>None\<close>); \<open>OtherException\<close> is an instance of
  any other subclass of \<^verbatim>\<open>Exception\<close>; \<open>NonException\<close> is an instance of
  \<^verbatim>\<open>BaseException\<close> outside \<^verbatim>\<open>Exception\<close> (\<^verbatim>\<open>KeyboardInterrupt\<close>, \<^verbatim>\<open>SystemExit\<close>,
  \<^verbatim>\<open>GeneratorExit\<close>), which the clause \<^verbatim>\<open>except Exception\<close> does not match.
\<close>

datatype exn =
    TypeError string
  | AttributeError string
  | OtherException string
  | NonException string

fun isinstance_Exception :: "exn \<Rightarrow> bool" where
  "isinstance_Exception (TypeError _) = True"
| "isinstance_Exception (AttributeError _) = True"
| "isinstance_Exception (OtherException _) = True"
| "isinstance_Exception (NonException _) = False"

fun str_exn :: "exn \<Rightarrow> string" where
  "str_exn (TypeError s) = s"
| "str_exn (AttributeError s) = s"
| "str_exn (OtherException s) = s"
| "str_exn (NonException s) = s"

section \<open>The world outside the program and what the program does to it\<close>

text \<open>
  The library and standard output as the program uses them, one field for each call site. A call returns
  \<open>Inr\<close> its value or \<open>Inl\<close> what it raised. Keyword arguments are passed as the source
  writes them, name and value, in the source's order.
  \<^item> \<^verbatim>\<open>AutoModelForSeq2SeqLM.from_pretrained(name)\<close>
  \<^item> \<^verbatim>\<open>AutoTokenizer.from_pretrained(name, **kw)\<close>
  \<^item> \<^verbatim>\<open>tokenizer(prompt, **kw)\<close>
  \<^item> \<^verbatim>\<open>x[key]\<close> on a library object (\<^verbatim>\<open>inputs["input_ids"]\<close>, \<^verbatim>\<open>outputs[0]\<close>)
  \<^item> \<^verbatim>\<open>model.generate(input_ids, **kw)\<close>
  \<^item> \<^verbatim>\<open>tokenizer.decode(sequence, **kw)\<close>
  \<^item> \<^verbatim>\<open>print(line)\<close>, which raises where standard output cannot take the line
    (\<^verbatim>\<open>UnicodeEncodeError\<close> where its encoding lacks the sign the two messages start with)
  Each library call is made at most once in one call of \<^verbatim>\<open>load_model\<close> or \<^verbatim>\<open>summarize\<close>, and
  the lines printed in one call are different lines, so a function per call loses nothing; a
  sequence of calls gets one such record per call.
\<close>

record external =
  AutoModelForSeq2SeqLM_from_pretrained :: "string \<Rightarrow> exn + obj"
  AutoTokenizer_from_pretrained :: "string \<Rightarrow> kwargs \<Rightarrow> exn + obj"
  tokenizer_call :: "obj \<Rightarrow> string \<Rightarrow> kwargs \<Rightarrow> exn + obj"
  getitem :: "obj \<Rightarrow> pyval \<Rightarrow> exn + obj"
  model_generate :: "obj \<Rightarrow> obj \<Rightarrow> kwargs \<Rightarrow> exn + obj"
  tokenizer_decode :: "obj \<Rightarrow> obj \<Rightarrow> kwargs \<Rightarrow> exn + string"
  print_call :: "string \<Rightarrow> exn + unit"

text \<open>
  The trace of a call: the library calls it made and the lines it printed, in order, an
  event being recorded when the call is made, whether it returns or raises. \<open>Call_load_model\<close>
  marks the entry of the method \<^verbatim>\<open>load_model\<close>.
\<close>

datatype event =
    Call_load_model
  | Call_model_from_pretrained string
  | Call_tokenizer_from_pretrained string kwargs
  | Print string
  | Call_tokenizer obj string kwargs
  | Call_generate obj obj kwargs
  | Call_decode obj obj kwargs

fun is_generate :: "event \<Rightarrow> bool" where
  "is_generate (Call_generate _ _ _) = True"
| "is_generate _ = False"

fun is_decode :: "event \<Rightarrow> bool" where
  "is_decode (Call_decode _ _ _) = True"
| "is_decode _ = False"

section \<open>The summarizer object\<close>

record summarizer =
  model_name :: string
  model :: "obj option"
  tokenizer :: "obj option"
  is_loaded :: bool

text \<open>A call gives the object as it is afterwards, the trace, and a value or what was raised.\<close>

type_synonym 'a outcome = "summarizer \<times> event list \<times> (exn + 'a)"

text \<open>\<^verbatim>\<open>__init__(self, model_name="google/flan-t5-base")\<close>\<close>

definition default_model_name :: string where
  "default_model_name = ''google/flan-t5-base''"

definition init :: "string \<Rightarrow> summarizer" where
  "init name = \<lparr>model_name = name, model = None, tokenizer = None, is_loaded = False\<rparr>"

subsection \<open>load_model\<close>

definition loaded_message :: "string \<Rightarrow> string" where
  "loaded_message name =
     [CHR 0xE2, CHR 0x9C, CHR 0x85] @ '' Model '' @ name @ '' loaded successfully!''"

definition error_message :: "exn \<Rightarrow> string" where
  "error_message e =
     [CHR 0xE2, CHR 0x9D, CHR 0x8C] @ '' Error loading model: '' @ str_exn e"

text \<open>
  The handler \<^verbatim>\<open>except Exception as e\<close>, entered with the object and the trace as they are
  when the \<^verbatim>\<open>try\<close> block raised. What is not an \<^verbatim>\<open>Exception\<close> passes through. Otherwise the
  handler prints first and clears the flag second: where the print raises, that is raised to
  the caller and the flag is left as it is.
\<close>

definition load_model_except ::
  "external \<Rightarrow> summarizer \<Rightarrow> event list \<Rightarrow> exn \<Rightarrow> unit outcome" where
  "load_model_except ext self tr e =
     (if isinstance_Exception e
      then (case print_call ext (error_message e) of
              Inl e' \<Rightarrow> (self, tr @ [Print (error_message e)], Inl e')
            | Inr _ \<Rightarrow> (self\<lparr>is_loaded := False\<rparr>, tr @ [Print (error_message e)], Inr ()))
      else (self, tr, Inl e))"

text \<open>
  The \<^verbatim>\<open>try\<close> block: the model, the tokenizer, the flag, the success line. The success line
  is printed inside the block, so what its print raises goes to the handler too.
\<close>

definition load_model :: "external \<Rightarrow> summarizer \<Rightarrow> unit outcome" where
  "load_model ext self =
     (case AutoModelForSeq2SeqLM_from_pretrained ext (model_name self) of
        Inl e \<Rightarrow>
          load_model_except ext self
            [Call_load_model, Call_model_from_pretrained (model_name self)] e
      | Inr m \<Rightarrow>
          (let self1 = self\<lparr>model := Some m\<rparr> in
           case AutoTokenizer_from_pretrained ext (model_name self1) [(''use_fast'', PBool True)] of
             Inl e \<Rightarrow>
               load_model_except ext self1
                 [Call_load_model, Call_model_from_pretrained (model_name self),
                  Call_tokenizer_from_pretrained (model_name self1) [(''use_fast'', PBool True)]] e
           | Inr t \<Rightarrow>
               (let self2 = self1\<lparr>tokenizer := Some t\<rparr>;
                    self3 = self2\<lparr>is_loaded := True\<rparr>;
                    tr = [Call_load_model, Call_model_from_pretrained (model_name self),
                          Call_tokenizer_from_pretrained (model_name self1)
                            [(''use_fast'', PBool True)],
                          Print (loaded_message (model_name self3))]
                in case print_call ext (loaded_message (model_name self3)) of
                     Inl e \<Rightarrow> load_model_except ext self3 tr e
                   | Inr _ \<Rightarrow> (self3, tr, Inr ()))))"

subsection \<open>The prompt builder\<close>

text \<open>
  \<^verbatim>\<open>_get_one_shot_example\<close>, \<^verbatim>\<open>_get_few_shot_examples\<close> and \<^verbatim>\<open>_create_prompt\<close> are methods:
  they take \<^verbatim>\<open>self\<close>, as here (the leading underscore of their names is dropped).
  \<^verbatim>\<open>sep.join(xs)\<close> is \<open>str_join\<close>.
\<close>

fun str_join :: "string \<Rightarrow> string list \<Rightarrow> string" where
  "str_join sep [] = []"
| "str_join sep [x] = x"
| "str_join sep (x # y # ys) = x @ sep @ str_join sep (y # ys)"

definition get_one_shot_example :: "summarizer \<Rightarrow> string" where
  "get_one_shot_example self =
     ''Dialogue:\<newline>#Person1#: What time is it, Tom?\<newline>#Person2#: Just a minute. It's ten to nine by my watch.\<newline>#Person1#: Is it? I had no idea it was so late. I must be off now.\<newline>#Person2#: What's the hurry?\<newline>#Person1#: I must catch the nine-thirty train.\<newline>#Person2#: You've plenty of time yet. The railway station is very close.\<newline>\<newline>Summary: #Person1# is in a hurry to catch a train. Tom tells #Person1# there is plenty of time.''"

definition get_few_shot_examples :: "summarizer \<Rightarrow> string" where
  "get_few_shot_examples self =
     (let examples =
        [get_one_shot_example self,
         ''Dialogue:\<newline>#Person1#: May, do you mind helping me prepare for the picnic?\<newline>#Person2#: Sure. Have you checked the weather report?\<newline>#Person1#: Yes. It says it will be sunny all day.\<newline>\<newline>Summary: Mom asks May to help prepare for the picnic and May agrees.'']
      in str_join ''\<newline>\<newline>'' examples)"

definition create_prompt :: "summarizer \<Rightarrow> string \<Rightarrow> string \<Rightarrow> string" where
  "create_prompt self dialogue method =
     (if method = ''zero-shot'' then
        ''Summarize the following conversation:\<newline>\<newline>'' @ dialogue @ ''\<newline>\<newline>Summary:''
      else if method = ''one-shot'' then
        (let example = get_one_shot_example self
         in example @ ''\<newline>\<newline>Dialogue:\<newline>'' @ dialogue @ ''\<newline>\<newline>Summary:'')
      else if method = ''few-shot'' then
        (let examples = get_few_shot_examples self
         in examples @ ''\<newline>\<newline>Dialogue:\<newline>'' @ dialogue @ ''\<newline>\<newline>Summary:'')
      else
        ''Summarize this dialogue: '' @ dialogue)"

subsection \<open>summarize\<close>

text \<open>
  \<^verbatim>\<open>summarize(self, dialogue, method="few-shot", max_length=50)\<close>. Python evaluates the
  callee before the arguments: \<^verbatim>\<open>self.model.generate\<close> is looked up before
  \<^verbatim>\<open>inputs["input_ids"]\<close> is read, \<^verbatim>\<open>self.tokenizer.decode\<close> before \<^verbatim>\<open>outputs[0]\<close>. The block
  \<^verbatim>\<open>with torch.no_grad()\<close> switches gradient recording off and changes no value here.
\<close>

text \<open>
  The messages of the interpreter's two errors on \<^verbatim>\<open>None\<close>:
  \<^verbatim>\<open>'NoneType' object is not callable\<close> and
  \<^verbatim>\<open>'NoneType' object has no attribute 'generate'\<close>.
\<close>

definition NoneType_not_callable :: string where
  "NoneType_not_callable = [CHR 0x27] @ ''NoneType'' @ [CHR 0x27] @ '' object is not callable''"

definition NoneType_no_generate :: string where
  "NoneType_no_generate =
     [CHR 0x27] @ ''NoneType'' @ [CHR 0x27] @ '' object has no attribute '' @
     [CHR 0x27] @ ''generate'' @ [CHR 0x27]"

definition summarize ::
  "external \<Rightarrow> summarizer \<Rightarrow> string \<Rightarrow> string \<Rightarrow> int \<Rightarrow> string outcome" where
  "summarize ext self dialogue method max_length =
     (case (if \<not> is_loaded self then load_model ext self else (self, [], Inr ())) of
        (self1, tr1, Inl e) \<Rightarrow> (self1, tr1, Inl e)
      | (self1, tr1, Inr _) \<Rightarrow>
          (let prompt = create_prompt self1 dialogue method in
           case tokenizer self1 of
             None \<Rightarrow> (self1, tr1, Inl (TypeError NoneType_not_callable))
           | Some t \<Rightarrow>
               (let kw_t = [(''return_tensors'', PStr ''pt''), (''truncation'', PBool True)];
                    tr2 = tr1 @ [Call_tokenizer t prompt kw_t] in
                case tokenizer_call ext t prompt kw_t of
                  Inl e \<Rightarrow> (self1, tr2, Inl e)
                | Inr inputs \<Rightarrow>
                    (case model self1 of
                       None \<Rightarrow>
                         (self1, tr2, Inl (AttributeError NoneType_no_generate))
                     | Some m \<Rightarrow>
                         (case getitem ext inputs (PStr ''input_ids'') of
                            Inl e \<Rightarrow> (self1, tr2, Inl e)
                          | Inr input_ids \<Rightarrow>
                              (let kw_g = [(''max_new_tokens'', PInt max_length),
                                           (''num_beams'', PInt 4),
                                           (''early_stopping'', PBool True)];
                                   tr3 = tr2 @ [Call_generate m input_ids kw_g] in
                               case model_generate ext m input_ids kw_g of
                                 Inl e \<Rightarrow> (self1, tr3, Inl e)
                               | Inr outputs \<Rightarrow>
                                   (case getitem ext outputs (PInt 0) of
                                      Inl e \<Rightarrow> (self1, tr3, Inl e)
                                    | Inr sequence \<Rightarrow>
                                        (let kw_d = [(''skip_special_tokens'', PBool True)];
                                             tr4 = tr3 @ [Call_decode t sequence kw_d] in
                                         case tokenizer_decode ext t sequence kw_d of
                                           Inl e \<Rightarrow> (self1, tr4, Inl e)
                                         | Inr summary \<Rightarrow> (self1, tr4, Inr summary)))))))))"

subsection \<open>Occurrences of a text in a text\<close>

text \<open>
  The number of positions of \<open>xs\<close> at which \<open>p\<close> starts; \<^const>\<open>sublist\<close> is Python's \<^verbatim>\<open>in\<close>
  on strings. A text has exactly one occurrence of \<open>p\<close> when this number is 1.
\<close>

fun occurrences :: "'a list \<Rightarrow> 'a list \<Rightarrow> nat" where
  "occurrences p [] = (if p = [] then 1 else 0)"
| "occurrences p (x # xs) = (if prefix p (x # xs) then 1 else 0) + occurrences p xs"

section \<open>Sequences of calls on one object\<close>

text \<open>
  A caller constructs the object and then calls \<^verbatim>\<open>load_model\<close> and \<^verbatim>\<open>summarize\<close> in any
  order; the library may behave differently at each call, so each call comes with its own
  \<^typ>\<open>external\<close>. A call that raises leaves the object as it was when it raised, and the
  caller can go on. \<open>run\<close> lists the object after construction and after each call.
\<close>

datatype operation = Load_model | Summarize string string int

fun step :: "summarizer \<Rightarrow> external \<times> operation \<Rightarrow> summarizer" where
  "step self (ext, Load_model) = fst (load_model ext self)"
| "step self (ext, Summarize dialogue method max_length) =
     fst (summarize ext self dialogue method max_length)"

fun run :: "summarizer \<Rightarrow> (external \<times> operation) list \<Rightarrow> summarizer list" where
  "run self [] = [self]"
| "run self (x # xs) = self # run (step self x) xs"

text \<open>The handles as they can be: no tokenizer without a model, and both once the flag is set.\<close>

definition handles_ok :: "summarizer \<Rightarrow> bool" where
  "handles_ok s \<longleftrightarrow>
     (tokenizer s \<noteq> None \<longrightarrow> model s \<noteq> None) \<and>
     (is_loaded s \<longrightarrow> model s \<noteq> None \<and> tokenizer s \<noteq> None)"

subsection \<open>Worlds to run the program on\<close>

text \<open>
  One where every call returns, one whose model cannot be acquired, one whose tokenizer
  cannot, and one whose model cannot be acquired and whose standard output cannot encode the
  sign the diagnostic starts with, so that \<^verbatim>\<open>print\<close> raises \<^verbatim>\<open>UnicodeEncodeError\<close>.
\<close>

definition library_ok :: external where
  "library_ok =
     \<lparr>AutoModelForSeq2SeqLM_from_pretrained = (\<lambda>name. Inr (Obj 1)),
      AutoTokenizer_from_pretrained = (\<lambda>name kw. Inr (Obj 2)),
      tokenizer_call = (\<lambda>t prompt kw. Inr (Obj 3)),
      getitem = (\<lambda>x key. if x = Obj 3 then Inr (Obj 4) else Inr (Obj 6)),
      model_generate = (\<lambda>m ids kw. Inr (Obj 5)),
      tokenizer_decode = (\<lambda>t s kw. Inr '' A summary. ''),
      print_call = (\<lambda>line. Inr ())\<rparr>"

definition library_no_model :: external where
  "library_no_model =
     library_ok\<lparr>AutoModelForSeq2SeqLM_from_pretrained :=
                   (\<lambda>name. Inl (OtherException ''not a valid model identifier''))\<rparr>"

definition library_no_tokenizer :: external where
  "library_no_tokenizer =
     library_ok\<lparr>AutoTokenizer_from_pretrained :=
                   (\<lambda>name kw. Inl (OtherException ''cannot load tokenizer''))\<rparr>"

definition library_no_model_ascii :: external where
  "library_no_model_ascii =
     library_no_model\<lparr>print_call :=
                         (\<lambda>line. Inl (OtherException ''codec cannot encode character''))\<rparr>"

section \<open>The object across calls\<close>

subsection \<open>What load_model and summarize do to the object and the trace\<close>

lemma load_model_except_state:
  "fst (load_model_except ext self tr e) = self \<or>
   fst (load_model_except ext self tr e) = self\<lparr>is_loaded := False\<rparr>"
  unfolding load_model_except_def by (simp split: sum.splits)

lemma load_model_except_trace:
  "fst (snd (load_model_except ext self tr e)) = tr \<or>
   (\<exists>line. fst (snd (load_model_except ext self tr e)) = tr @ [Print line])"
  unfolding load_model_except_def by (simp split: sum.splits)

lemma handles_ok_except:
  "handles_ok self \<Longrightarrow> handles_ok (fst (load_model_except ext self tr e))"
  using load_model_except_state [of ext self tr e] by (auto simp: handles_ok_def)

lemma load_model_handles_ok: "handles_ok self \<Longrightarrow> handles_ok (fst (load_model ext self))"
proof -
  assume h: "handles_ok self"
  have a: "handles_ok (self\<lparr>model := Some mo\<rparr>)" for mo
    using h by (simp add: handles_ok_def)
  have b: "handles_ok (self\<lparr>model := Some mo, tokenizer := Some t, is_loaded := True\<rparr>)" for mo t
    by (simp add: handles_ok_def)
  show ?thesis
    unfolding load_model_def Let_def
    by (simp split: sum.splits add: handles_ok_except [OF h] handles_ok_except [OF a]
        handles_ok_except [OF b] b)
qed

lemma summarize_state:
  "fst (summarize ext self d m n) = (if is_loaded self then self else fst (load_model ext self))"
  unfolding summarize_def Let_def
  by (auto split: prod.splits sum.splits option.splits)

lemma step_handles_ok: "handles_ok self \<Longrightarrow> handles_ok (step self x)"
  by (cases x; cases "snd x") (auto simp: summarize_state load_model_handles_ok)

lemma run_handles_ok: "handles_ok self \<Longrightarrow> s \<in> set (run self ops) \<Longrightarrow> handles_ok s"
proof (induction ops arbitrary: self)
  case Nil
  then show ?case by simp
next
  case (Cons x xs)
  from Cons.prems(2) have "s = self \<or> s \<in> set (run (step self x) xs)" by simp
  then show ?case
  proof
    assume "s = self" then show ?thesis using Cons.prems(1) by simp
  next
    assume "s \<in> set (run (step self x) xs)"
    then show ?thesis using Cons.IH [OF step_handles_ok [OF Cons.prems(1)]] by simp
  qed
qed

lemma init_handles_ok: "handles_ok (init name)"
  by (simp add: handles_ok_def init_def)

lemma load_model_partial:
  assumes "tokenizer self = None"
    and "AutoModelForSeq2SeqLM_from_pretrained ext (model_name self) = Inr mo"
    and "AutoTokenizer_from_pretrained ext (model_name self) [(''use_fast'', PBool True)] = Inl e"
  shows "model (fst (load_model ext self)) = Some mo \<and> tokenizer (fst (load_model ext self)) = None"
proof -
  let ?tr = "[Call_load_model, Call_model_from_pretrained (model_name self),
              Call_tokenizer_from_pretrained (model_name self) [(''use_fast'', PBool True)]]"
  have "load_model ext self = load_model_except ext (self\<lparr>model := Some mo\<rparr>) ?tr e"
    unfolding load_model_def Let_def using assms(2,3) by simp
  then show ?thesis
    using load_model_except_state [of ext "self\<lparr>model := Some mo\<rparr>" ?tr e] assms(1) by auto
qed

lemma load_model_trace:
  "\<exists>rest. fst (snd (load_model ext self)) = Call_load_model # rest \<and> Call_load_model \<notin> set rest
      \<and> (\<forall>ev \<in> set rest. \<not> is_generate ev \<and> \<not> is_decode ev)"
proof -
  have x: "\<exists>rest. fst (snd (load_model_except ext s (Call_load_model # tl) e)) = Call_load_model # rest
             \<and> Call_load_model \<notin> set rest
             \<and> (\<forall>ev \<in> set rest. \<not> is_generate ev \<and> \<not> is_decode ev)"
    if "Call_load_model \<notin> set tl" "\<forall>ev \<in> set tl. \<not> is_generate ev \<and> \<not> is_decode ev"
    for s tl e
    using load_model_except_trace [of ext s "Call_load_model # tl" e] that by auto
  show ?thesis
    unfolding load_model_def Let_def
    by (simp split: sum.splits add: x)
qed


lemma load_model_no_generate:
  "\<forall>ev \<in> set (fst (snd (load_model ext self))). \<not> is_generate ev \<and> \<not> is_decode ev"
  using load_model_trace [of ext self] by auto

subsection \<open>The two handles\<close>

text \<open>
  C1, as amended. After construction and after each call of any sequence of calls of
  \<^verbatim>\<open>load_model\<close> and \<^verbatim>\<open>summarize\<close>, whatever the library and standard output do at each
  call, a load that fails partway included: the tokenizer handle is never set without the
  model handle, and whenever \<^verbatim>\<open>is_loaded\<close> is true both handles are set. The model handle
  can be set without the tokenizer handle: a \<^verbatim>\<open>load_model\<close> entered without a tokenizer
  handle, in which the model is acquired and the tokenizer is not, leaves the model handle
  set and the tokenizer handle unset.
\<close>

theorem handles_invariant:
  "(s \<in> set (run (init name) ops) \<longrightarrow>
      (tokenizer s \<noteq> None \<longrightarrow> model s \<noteq> None) \<and>
      (is_loaded s \<longrightarrow> model s \<noteq> None \<and> tokenizer s \<noteq> None))
   \<and> (tokenizer self = None \<and>
      AutoModelForSeq2SeqLM_from_pretrained ext (model_name self) = Inr mo \<and>
      AutoTokenizer_from_pretrained ext (model_name self) [(''use_fast'', PBool True)] = Inl e \<longrightarrow>
        model (fst (load_model ext self)) = Some mo \<and>
        tokenizer (fst (load_model ext self)) = None)"
  using run_handles_ok [OF init_handles_ok, of s name ops] load_model_partial [of self ext mo e]
  by (simp add: handles_ok_def)

text \<open>
  The invariant at work: after a \<^verbatim>\<open>load_model\<close> where both acquisitions return, the flag is
  set and so are both handles; after one on the fresh object where the tokenizer cannot be
  acquired, the model handle is set alone.
\<close>

theorem handles_invariant_witness:
  "\<lparr>model_name = default_model_name, model = Some (Obj 1), tokenizer = Some (Obj 2),
     is_loaded = True\<rparr> \<in> set (run (init default_model_name) [(library_ok, Load_model)])
   \<and> is_loaded \<lparr>model_name = default_model_name, model = Some (Obj 1), tokenizer = Some (Obj 2),
     is_loaded = True\<rparr>
   \<and> model \<lparr>model_name = default_model_name, model = Some (Obj 1), tokenizer = Some (Obj 2),
     is_loaded = True\<rparr> \<noteq> None
   \<and> tokenizer (init default_model_name) = None
   \<and> AutoModelForSeq2SeqLM_from_pretrained library_no_tokenizer
        (model_name (init default_model_name)) = Inr (Obj 1)
   \<and> AutoTokenizer_from_pretrained library_no_tokenizer (model_name (init default_model_name))
        [(''use_fast'', PBool True)] = Inl (OtherException ''cannot load tokenizer'')
   \<and> model (fst (load_model library_no_tokenizer (init default_model_name))) = Some (Obj 1)
   \<and> tokenizer (fst (load_model library_no_tokenizer (init default_model_name))) = None"
proof -
  let ?s = "\<lparr>model_name = default_model_name, model = Some (Obj 1), tokenizer = Some (Obj 2),
     is_loaded = True\<rparr>"
  have m: "?s \<in> set (run (init default_model_name) [(library_ok, Load_model)])"
    by (simp add: init_def load_model_def library_ok_def Let_def)
  have h: "tokenizer (init default_model_name) = None \<and>
      AutoModelForSeq2SeqLM_from_pretrained library_no_tokenizer
        (model_name (init default_model_name)) = Inr (Obj 1) \<and>
      AutoTokenizer_from_pretrained library_no_tokenizer (model_name (init default_model_name))
        [(''use_fast'', PBool True)] = Inl (OtherException ''cannot load tokenizer'')"
    by (simp add: init_def library_no_tokenizer_def library_ok_def)
  show ?thesis
    using m h
      handles_invariant [where s = ?s and name = default_model_name
        and ops = "[(library_ok, Load_model)]" and self = "init default_model_name"
        and ext = library_no_tokenizer and mo = "Obj 1"
        and e = "OtherException ''cannot load tokenizer''"]
    by simp
qed

text \<open>
  C1 as stated fails. \<^verbatim>\<open>load_model\<close> assigns \<^verbatim>\<open>self.model\<close> before it asks for the tokenizer
  and its handler does not take the assignment back: when the model is acquired and the
  tokenizer is not, the fresh object is left with a model handle and no tokenizer handle.
\<close>

theorem handles_paired_counterexample:
  "model (last (run (init default_model_name) [(library_no_tokenizer, Load_model)])) = Some (Obj 1)
   \<and> tokenizer (last (run (init default_model_name) [(library_no_tokenizer, Load_model)])) = None"
  by (simp add: init_def load_model_def load_model_except_def library_no_tokenizer_def
      library_ok_def Let_def)

subsection \<open>load_model\<close>

text \<open>
  C2, as amended. A failure is an instance of \<^verbatim>\<open>Exception\<close>, the class of every error of
  Python (the interpreter's exit signals \<^verbatim>\<open>KeyboardInterrupt\<close> and \<^verbatim>\<open>SystemExit\<close> are not
  failures of the library). Whenever the acquisition of the model, or that of the tokenizer
  after the model was acquired, raises a failure and the print of the diagnostic returns,
  \<^verbatim>\<open>load_model\<close> returns normally, having printed that one line with the failure's text
  and nothing else, and \<^verbatim>\<open>is_loaded\<close> is false. When both acquisitions return and the print
  of the success line returns, it has set both handles and \<^verbatim>\<open>is_loaded\<close> is true.
\<close>

theorem load_model_outcome:
  "(AutoModelForSeq2SeqLM_from_pretrained ext (model_name self) = Inl e \<and> isinstance_Exception e \<and>
      print_call ext (error_message e) = Inr ()
      \<longrightarrow> load_model ext self =
           (self\<lparr>is_loaded := False\<rparr>,
            [Call_load_model, Call_model_from_pretrained (model_name self),
             Print (error_message e)],
            Inr ()))
   \<and> (AutoModelForSeq2SeqLM_from_pretrained ext (model_name self) = Inr mo \<and>
      AutoTokenizer_from_pretrained ext (model_name self) [(''use_fast'', PBool True)] = Inl e \<and>
      isinstance_Exception e \<and> print_call ext (error_message e) = Inr ()
      \<longrightarrow> load_model ext self =
           (self\<lparr>model := Some mo, is_loaded := False\<rparr>,
            [Call_load_model, Call_model_from_pretrained (model_name self),
             Call_tokenizer_from_pretrained (model_name self) [(''use_fast'', PBool True)],
             Print (error_message e)],
            Inr ()))
   \<and> (AutoModelForSeq2SeqLM_from_pretrained ext (model_name self) = Inr mo \<and>
      AutoTokenizer_from_pretrained ext (model_name self) [(''use_fast'', PBool True)] = Inr t \<and>
      print_call ext (loaded_message (model_name self)) = Inr ()
      \<longrightarrow> load_model ext self =
           (self\<lparr>model := Some mo, tokenizer := Some t, is_loaded := True\<rparr>,
            [Call_load_model, Call_model_from_pretrained (model_name self),
             Call_tokenizer_from_pretrained (model_name self) [(''use_fast'', PBool True)],
             Print (loaded_message (model_name self))],
            Inr ()))"
  unfolding load_model_def load_model_except_def Let_def by simp

text \<open>The three cases in three worlds, from the freshly constructed object.\<close>

theorem load_model_outcome_witness:
  "load_model library_no_model (init default_model_name) =
     (init default_model_name,
      [Call_load_model, Call_model_from_pretrained default_model_name,
       Print (error_message (OtherException ''not a valid model identifier''))],
      Inr ())
   \<and> load_model library_no_tokenizer (init default_model_name) =
     ((init default_model_name)\<lparr>model := Some (Obj 1)\<rparr>,
      [Call_load_model, Call_model_from_pretrained default_model_name,
       Call_tokenizer_from_pretrained default_model_name [(''use_fast'', PBool True)],
       Print (error_message (OtherException ''cannot load tokenizer''))],
      Inr ())
   \<and> load_model library_ok (init default_model_name) =
     ((init default_model_name)\<lparr>model := Some (Obj 1), tokenizer := Some (Obj 2), is_loaded := True\<rparr>,
      [Call_load_model, Call_model_from_pretrained default_model_name,
       Call_tokenizer_from_pretrained default_model_name [(''use_fast'', PBool True)],
       Print (loaded_message default_model_name)],
      Inr ())"
proof -
  have a: "AutoModelForSeq2SeqLM_from_pretrained library_no_model (model_name (init default_model_name))
           = Inl (OtherException ''not a valid model identifier'')
         \<and> isinstance_Exception (OtherException ''not a valid model identifier'')
         \<and> print_call library_no_model
             (error_message (OtherException ''not a valid model identifier'')) = Inr ()"
    by (simp add: library_no_model_def library_ok_def)
  have b: "AutoModelForSeq2SeqLM_from_pretrained library_no_tokenizer (model_name (init default_model_name))
           = Inr (Obj 1) \<and>
         AutoTokenizer_from_pretrained library_no_tokenizer (model_name (init default_model_name))
           [(''use_fast'', PBool True)] = Inl (OtherException ''cannot load tokenizer'') \<and>
         isinstance_Exception (OtherException ''cannot load tokenizer'') \<and>
         print_call library_no_tokenizer
           (error_message (OtherException ''cannot load tokenizer'')) = Inr ()"
    by (simp add: library_no_tokenizer_def library_ok_def)
  have c: "AutoModelForSeq2SeqLM_from_pretrained library_ok (model_name (init default_model_name))
           = Inr (Obj 1) \<and>
         AutoTokenizer_from_pretrained library_ok (model_name (init default_model_name))
           [(''use_fast'', PBool True)] = Inr (Obj 2) \<and>
         print_call library_ok (loaded_message (model_name (init default_model_name))) = Inr ()"
    by (simp add: library_ok_def)
  from load_model_outcome [where ext = library_no_model and self = "init default_model_name"
      and e = "OtherException ''not a valid model identifier''"] a
  have 1: "load_model library_no_model (init default_model_name) =
     (init default_model_name,
      [Call_load_model, Call_model_from_pretrained default_model_name,
       Print (error_message (OtherException ''not a valid model identifier''))],
      Inr ())" by (simp add: init_def)
  from load_model_outcome [where ext = library_no_tokenizer and self = "init default_model_name"
      and mo = "Obj 1" and e = "OtherException ''cannot load tokenizer''"] b
  have 2: "load_model library_no_tokenizer (init default_model_name) =
     ((init default_model_name)\<lparr>model := Some (Obj 1)\<rparr>,
      [Call_load_model, Call_model_from_pretrained default_model_name,
       Call_tokenizer_from_pretrained default_model_name [(''use_fast'', PBool True)],
       Print (error_message (OtherException ''cannot load tokenizer''))],
      Inr ())" by (simp add: init_def)
  from load_model_outcome [where ext = library_ok and self = "init default_model_name"
      and mo = "Obj 1" and t = "Obj 2"] c
  have 3: "load_model library_ok (init default_model_name) =
     ((init default_model_name)\<lparr>model := Some (Obj 1), tokenizer := Some (Obj 2), is_loaded := True\<rparr>,
      [Call_load_model, Call_model_from_pretrained default_model_name,
       Call_tokenizer_from_pretrained default_model_name [(''use_fast'', PBool True)],
       Print (loaded_message default_model_name)],
      Inr ())" by (simp add: init_def)
  from 1 2 3 show ?thesis by simp
qed

text \<open>
  C2 as stated fails. The handler prints before it clears the flag. On an object that is
  loaded, where the model cannot be acquired again and standard output cannot encode the
  diagnostic: the acquisition raises a failure, the handler's print raises, \<^verbatim>\<open>load_model\<close>
  raises that to its caller, and \<^verbatim>\<open>is_loaded\<close> is still true.
\<close>

theorem load_model_raises_counterexample:
  "AutoModelForSeq2SeqLM_from_pretrained library_no_model_ascii
       (model_name (fst (load_model library_ok (init default_model_name))))
     = Inl (OtherException ''not a valid model identifier'')
   \<and> isinstance_Exception (OtherException ''not a valid model identifier'')
   \<and> snd (snd (load_model library_no_model_ascii
                 (fst (load_model library_ok (init default_model_name)))))
     = Inl (OtherException ''codec cannot encode character'')
   \<and> is_loaded (fst (load_model library_no_model_ascii
                       (fst (load_model library_ok (init default_model_name)))))"
  by (simp add: load_model_def load_model_except_def library_no_model_ascii_def
      library_no_model_def library_ok_def init_def Let_def)

subsection \<open>summarize\<close>

text \<open>
  C3, as amended. On an object that is not loaded and has no handles, when the load that
  \<^verbatim>\<open>summarize\<close> starts fails again (at the model or at the tokenizer) and the print of the
  diagnostic returns, \<^verbatim>\<open>summarize\<close> does not stop there: \<^verbatim>\<open>load_model\<close> returns normally
  with the flag false and the tokenizer unset, the diagnostic is printed, and \<^verbatim>\<open>summarize\<close>
  goes on to call the tokenizer, which is \<^verbatim>\<open>None\<close>: it raises the interpreter's
  \<^verbatim>\<open>TypeError\<close> for calling \<^verbatim>\<open>None\<close>, not an error of its own, and generation is never
  invoked.
\<close>

theorem summarize_unloaded_fails:
  assumes "\<not> is_loaded self" and "model self = None" and "tokenizer self = None"
    and "AutoModelForSeq2SeqLM_from_pretrained ext (model_name self) = Inl e
         \<or> (\<exists>mo. AutoModelForSeq2SeqLM_from_pretrained ext (model_name self) = Inr mo \<and>
              AutoTokenizer_from_pretrained ext (model_name self) [(''use_fast'', PBool True)] = Inl e)"
    and "isinstance_Exception e"
    and "print_call ext (error_message e) = Inr ()"
  shows "summarize ext self d m n =
           (fst (load_model ext self), fst (snd (load_model ext self)),
            Inl (TypeError NoneType_not_callable))
         \<and> snd (snd (load_model ext self)) = Inr ()
         \<and> \<not> is_loaded (fst (load_model ext self))
         \<and> tokenizer (fst (load_model ext self)) = None
         \<and> Print (error_message e) \<in> set (fst (snd (summarize ext self d m n)))
         \<and> (\<forall>ev \<in> set (fst (snd (summarize ext self d m n))). \<not> is_generate ev)"
  using assms unfolding summarize_def load_model_def load_model_except_def Let_def
  by auto

text \<open>The case of a model that cannot be acquired, on the freshly constructed object.\<close>

theorem summarize_unloaded_fails_witness:
  "\<not> is_loaded (init default_model_name)
   \<and> model (init default_model_name) = None
   \<and> tokenizer (init default_model_name) = None
   \<and> AutoModelForSeq2SeqLM_from_pretrained library_no_model (model_name (init default_model_name))
       = Inl (OtherException ''not a valid model identifier'')
   \<and> isinstance_Exception (OtherException ''not a valid model identifier'')
   \<and> print_call library_no_model
        (error_message (OtherException ''not a valid model identifier'')) = Inr ()
   \<and> summarize library_no_model (init default_model_name) ''X'' ''few-shot'' 50 =
       (init default_model_name,
        [Call_load_model, Call_model_from_pretrained default_model_name,
         Print (error_message (OtherException ''not a valid model identifier''))],
        Inl (TypeError NoneType_not_callable))"
proof -
  have h1: "\<not> is_loaded (init default_model_name)" by (simp add: init_def)
  have h2: "model (init default_model_name) = None" by (simp add: init_def)
  have h3: "tokenizer (init default_model_name) = None" by (simp add: init_def)
  have h4: "AutoModelForSeq2SeqLM_from_pretrained library_no_model
              (model_name (init default_model_name))
            = Inl (OtherException ''not a valid model identifier'')"
    by (simp add: library_no_model_def library_ok_def)
  have h5: "isinstance_Exception (OtherException ''not a valid model identifier'')" by simp
  have h6: "print_call library_no_model
        (error_message (OtherException ''not a valid model identifier'')) = Inr ()"
    by (simp add: library_no_model_def library_ok_def)
  have l: "load_model library_no_model (init default_model_name) =
       (init default_model_name,
        [Call_load_model, Call_model_from_pretrained default_model_name,
         Print (error_message (OtherException ''not a valid model identifier''))],
        Inr ())"
    by (simp add: load_model_def load_model_except_def library_no_model_def library_ok_def
        init_def)
  from summarize_unloaded_fails [OF h1 h2 h3 disjI1 [OF h4] h5 h6, of "''X''" "''few-shot''" 50]
  have "summarize library_no_model (init default_model_name) ''X'' ''few-shot'' 50 =
       (init default_model_name,
        [Call_load_model, Call_model_from_pretrained default_model_name,
         Print (error_message (OtherException ''not a valid model identifier''))],
        Inl (TypeError NoneType_not_callable))"
    unfolding l by simp
  with h1 h2 h3 h4 h5 h6 show ?thesis by (intro conjI)
qed

text \<open>
  C3 as stated fails. On the fresh object (not loaded, no handles), where the model cannot
  be acquired and standard output cannot encode the diagnostic, the handler's print raises
  inside \<^verbatim>\<open>load_model\<close>: \<^verbatim>\<open>summarize\<close> raises that at the load step and never comes to call
  the tokenizer, so what it raises is not the \<^verbatim>\<open>TypeError\<close> for calling \<^verbatim>\<open>None\<close>.
\<close>

theorem summarize_stops_at_load_counterexample:
  "\<not> is_loaded (init default_model_name)
   \<and> model (init default_model_name) = None
   \<and> tokenizer (init default_model_name) = None
   \<and> AutoModelForSeq2SeqLM_from_pretrained library_no_model_ascii
        (model_name (init default_model_name))
       = Inl (OtherException ''not a valid model identifier'')
   \<and> isinstance_Exception (OtherException ''not a valid model identifier'')
   \<and> summarize library_no_model_ascii (init default_model_name) ''X'' ''few-shot'' 50 =
       (init default_model_name,
        [Call_load_model, Call_model_from_pretrained default_model_name,
         Print (error_message (OtherException ''not a valid model identifier''))],
        Inl (OtherException ''codec cannot encode character''))
   \<and> snd (snd (summarize library_no_model_ascii (init default_model_name) ''X'' ''few-shot'' 50))
       \<noteq> Inl (TypeError NoneType_not_callable)"
  by (simp add: summarize_def load_model_def load_model_except_def library_no_model_ascii_def
      library_no_model_def library_ok_def init_def Let_def)



text \<open>
  C5. A call of \<^verbatim>\<open>summarize\<close> reaches generation when its load step (none on a loaded
  object) returns, both handles are set, the tokenizer returns an encoding of the prompt and
  the \<^verbatim>\<open>input_ids\<close> of the encoding can be read. Then \<^verbatim>\<open>generate\<close> is called exactly once,
  right after the tokenizer, on the model, with these ids and the keywords
  \<^verbatim>\<open>max_new_tokens=max_length\<close>, \<^verbatim>\<open>num_beams=4\<close>, \<^verbatim>\<open>early_stopping=True\<close>; when it returns, the
  first sequence of its output is passed to \<^verbatim>\<open>decode\<close> with \<^verbatim>\<open>skip_special_tokens=True\<close>,
  once, and what \<^verbatim>\<open>decode\<close> returns is the result of \<^verbatim>\<open>summarize\<close>, unchanged; what
  \<^verbatim>\<open>generate\<close>, the indexing or \<^verbatim>\<open>decode\<close> raise is raised by \<^verbatim>\<open>summarize\<close>. Conversely, a
  call whose trace has a call of \<^verbatim>\<open>generate\<close> is such a call.
\<close>

theorem summarize_generation:
  "((if is_loaded self then (self, [], Inr ()) else load_model ext self) = (self1, tr1, Inr ()) \<and>
    tokenizer self1 = Some t \<and> model self1 = Some mo \<and>
    tokenizer_call ext t (create_prompt self1 d m)
      [(''return_tensors'', PStr ''pt''), (''truncation'', PBool True)] = Inr inputs \<and>
    getitem ext inputs (PStr ''input_ids'') = Inr ids
    \<longrightarrow>
      summarize ext self d m n =
        (self1,
         tr1 @
         [Call_tokenizer t (create_prompt self1 d m)
            [(''return_tensors'', PStr ''pt''), (''truncation'', PBool True)],
          Call_generate mo ids
            [(''max_new_tokens'', PInt n), (''num_beams'', PInt 4),
             (''early_stopping'', PBool True)]] @
         (case model_generate ext mo ids
                 [(''max_new_tokens'', PInt n), (''num_beams'', PInt 4),
                  (''early_stopping'', PBool True)] of
            Inl e \<Rightarrow> []
          | Inr outputs \<Rightarrow>
              (case getitem ext outputs (PInt 0) of
                 Inl e \<Rightarrow> []
               | Inr sequence \<Rightarrow>
                   [Call_decode t sequence [(''skip_special_tokens'', PBool True)]])),
         (case model_generate ext mo ids
                 [(''max_new_tokens'', PInt n), (''num_beams'', PInt 4),
                  (''early_stopping'', PBool True)] of
            Inl e \<Rightarrow> Inl e
          | Inr outputs \<Rightarrow>
              (case getitem ext outputs (PInt 0) of
                 Inl e \<Rightarrow> Inl e
               | Inr sequence \<Rightarrow>
                   tokenizer_decode ext t sequence [(''skip_special_tokens'', PBool True)])))
      \<and> filter is_generate (fst (snd (summarize ext self d m n))) =
          [Call_generate mo ids
             [(''max_new_tokens'', PInt n), (''num_beams'', PInt 4),
              (''early_stopping'', PBool True)]])
   \<and> (summarize ext self d m n = (self', tr, r) \<and> (\<exists>ev \<in> set tr. is_generate ev)
      \<longrightarrow>
        (\<exists>t mo inputs ids.
           tokenizer self' = Some t \<and> model self' = Some mo \<and>
           tokenizer_call ext t (create_prompt self' d m)
             [(''return_tensors'', PStr ''pt''), (''truncation'', PBool True)] = Inr inputs \<and>
           getitem ext inputs (PStr ''input_ids'') = Inr ids \<and>
           filter is_generate tr =
             [Call_generate mo ids
                [(''max_new_tokens'', PInt n), (''num_beams'', PInt 4),
                 (''early_stopping'', PBool True)]] \<and>
           r = (case model_generate ext mo ids
                       [(''max_new_tokens'', PInt n), (''num_beams'', PInt 4),
                        (''early_stopping'', PBool True)] of
                  Inl e \<Rightarrow> Inl e
                | Inr outputs \<Rightarrow>
                    (case getitem ext outputs (PInt 0) of
                       Inl e \<Rightarrow> Inl e
                     | Inr sequence \<Rightarrow>
                         tokenizer_decode ext t sequence [(''skip_special_tokens'', PBool True)])) \<and>
           filter is_decode tr =
               (case model_generate ext mo ids
                       [(''max_new_tokens'', PInt n), (''num_beams'', PInt 4),
                        (''early_stopping'', PBool True)] of
                  Inl e \<Rightarrow> []
                | Inr outputs \<Rightarrow>
                    (case getitem ext outputs (PInt 0) of
                       Inl e \<Rightarrow> []
                     | Inr sequence \<Rightarrow>
                         [Call_decode t sequence [(''skip_special_tokens'', PBool True)]]))))"
proof (intro conjI impI)
  assume a: "(if is_loaded self then (self, [], Inr ()) else load_model ext self) =
               (self1, tr1, Inr ()) \<and>
    tokenizer self1 = Some t \<and> model self1 = Some mo \<and>
    tokenizer_call ext t (create_prompt self1 d m)
      [(''return_tensors'', PStr ''pt''), (''truncation'', PBool True)] = Inr inputs \<and>
    getitem ext inputs (PStr ''input_ids'') = Inr ids"
  then have L: "(if \<not> is_loaded self then load_model ext self else (self, [], Inr ())) =
               (self1, tr1, Inr ())"
    by (simp split: if_splits)
  have ng: "filter is_generate tr1 = []"
    using load_model_no_generate [of ext self] L
    by (auto simp: filter_empty_conv split: if_splits)
  show s: "summarize ext self d m n =
        (self1,
         tr1 @
         [Call_tokenizer t (create_prompt self1 d m)
            [(''return_tensors'', PStr ''pt''), (''truncation'', PBool True)],
          Call_generate mo ids
            [(''max_new_tokens'', PInt n), (''num_beams'', PInt 4),
             (''early_stopping'', PBool True)]] @
         (case model_generate ext mo ids
                 [(''max_new_tokens'', PInt n), (''num_beams'', PInt 4),
                  (''early_stopping'', PBool True)] of
            Inl e \<Rightarrow> []
          | Inr outputs \<Rightarrow>
              (case getitem ext outputs (PInt 0) of
                 Inl e \<Rightarrow> []
               | Inr sequence \<Rightarrow>
                   [Call_decode t sequence [(''skip_special_tokens'', PBool True)]])),
         (case model_generate ext mo ids
                 [(''max_new_tokens'', PInt n), (''num_beams'', PInt 4),
                  (''early_stopping'', PBool True)] of
            Inl e \<Rightarrow> Inl e
          | Inr outputs \<Rightarrow>
              (case getitem ext outputs (PInt 0) of
                 Inl e \<Rightarrow> Inl e
               | Inr sequence \<Rightarrow>
                   tokenizer_decode ext t sequence [(''skip_special_tokens'', PBool True)])))"
    unfolding summarize_def Let_def L using a
    by (simp split: sum.splits)
  show "filter is_generate (fst (snd (summarize ext self d m n))) =
          [Call_generate mo ids
             [(''max_new_tokens'', PInt n), (''num_beams'', PInt 4),
              (''early_stopping'', PBool True)]]"
    unfolding s by (simp add: ng split: sum.splits)
next
  assume b: "summarize ext self d m n = (self', tr, r) \<and> (\<exists>ev \<in> set tr. is_generate ev)"
  define L where "L = (if \<not> is_loaded self then load_model ext self else (self, [], Inr ()))"
  obtain s1 tr1 r1 where L: "L = (s1, tr1, r1)" by (cases L) auto
  have ng: "filter is_generate tr1 = []" "filter is_decode tr1 = []"
    using load_model_no_generate [of ext self] L unfolding L_def
    by (auto simp: filter_empty_conv split: if_splits)
  have ng': "\<forall>ev \<in> set tr1. \<not> is_generate ev" using ng(1) by (simp add: filter_empty_conv)
  from b show "\<exists>t mo inputs ids.
           tokenizer self' = Some t \<and> model self' = Some mo \<and>
           tokenizer_call ext t (create_prompt self' d m)
             [(''return_tensors'', PStr ''pt''), (''truncation'', PBool True)] = Inr inputs \<and>
           getitem ext inputs (PStr ''input_ids'') = Inr ids \<and>
           filter is_generate tr =
             [Call_generate mo ids
                [(''max_new_tokens'', PInt n), (''num_beams'', PInt 4),
                 (''early_stopping'', PBool True)]] \<and>
           r = (case model_generate ext mo ids
                       [(''max_new_tokens'', PInt n), (''num_beams'', PInt 4),
                        (''early_stopping'', PBool True)] of
                  Inl e \<Rightarrow> Inl e
                | Inr outputs \<Rightarrow>
                    (case getitem ext outputs (PInt 0) of
                       Inl e \<Rightarrow> Inl e
                     | Inr sequence \<Rightarrow>
                         tokenizer_decode ext t sequence [(''skip_special_tokens'', PBool True)])) \<and>
           filter is_decode tr =
               (case model_generate ext mo ids
                       [(''max_new_tokens'', PInt n), (''num_beams'', PInt 4),
                        (''early_stopping'', PBool True)] of
                  Inl e \<Rightarrow> []
                | Inr outputs \<Rightarrow>
                    (case getitem ext outputs (PInt 0) of
                       Inl e \<Rightarrow> []
                     | Inr sequence \<Rightarrow>
                         [Call_decode t sequence [(''skip_special_tokens'', PBool True)]]))"
    unfolding summarize_def Let_def L_def [symmetric] L
    by (auto split: sum.splits option.splits simp: ng ng')
qed

lemma summarize_library_ok:
  "summarize library_ok (init default_model_name) ''X'' ''zero-shot'' 50 =
     (\<lparr>model_name = default_model_name, model = Some (Obj 1), tokenizer = Some (Obj 2),
        is_loaded = True\<rparr>,
      [Call_load_model, Call_model_from_pretrained default_model_name,
       Call_tokenizer_from_pretrained default_model_name [(''use_fast'', PBool True)],
       Print (loaded_message default_model_name),
       Call_tokenizer (Obj 2)
         ''Summarize the following conversation:\<newline>\<newline>X\<newline>\<newline>Summary:''
         [(''return_tensors'', PStr ''pt''), (''truncation'', PBool True)],
       Call_generate (Obj 1) (Obj 4)
         [(''max_new_tokens'', PInt 50), (''num_beams'', PInt 4), (''early_stopping'', PBool True)],
       Call_decode (Obj 2) (Obj 6) [(''skip_special_tokens'', PBool True)]],
      Inr '' A summary. '')"
  by (simp add: summarize_def load_model_def library_ok_def init_def create_prompt_def Let_def)

text \<open>
  Two whole calls where every call of the library returns: one on an object that is
  loaded, which makes no load, and one on the freshly constructed object.
\<close>

theorem summarize_generation_witness:
  "(if is_loaded \<lparr>model_name = default_model_name, model = Some (Obj 1),
                   tokenizer = Some (Obj 2), is_loaded = True\<rparr>
    then (\<lparr>model_name = default_model_name, model = Some (Obj 1),
            tokenizer = Some (Obj 2), is_loaded = True\<rparr>, [], Inr ())
    else load_model library_ok \<lparr>model_name = default_model_name, model = Some (Obj 1),
                                 tokenizer = Some (Obj 2), is_loaded = True\<rparr>) =
     (\<lparr>model_name = default_model_name, model = Some (Obj 1),
        tokenizer = Some (Obj 2), is_loaded = True\<rparr>, [], Inr ())
   \<and> tokenizer_call library_ok (Obj 2)
       ''Summarize the following conversation:\<newline>\<newline>X\<newline>\<newline>Summary:''
       [(''return_tensors'', PStr ''pt''), (''truncation'', PBool True)] = Inr (Obj 3)
   \<and> getitem library_ok (Obj 3) (PStr ''input_ids'') = Inr (Obj 4)
   \<and> summarize library_ok
       \<lparr>model_name = default_model_name, model = Some (Obj 1),
         tokenizer = Some (Obj 2), is_loaded = True\<rparr> ''X'' ''zero-shot'' 50 =
       (\<lparr>model_name = default_model_name, model = Some (Obj 1),
          tokenizer = Some (Obj 2), is_loaded = True\<rparr>,
        [Call_tokenizer (Obj 2)
           ''Summarize the following conversation:\<newline>\<newline>X\<newline>\<newline>Summary:''
           [(''return_tensors'', PStr ''pt''), (''truncation'', PBool True)],
         Call_generate (Obj 1) (Obj 4)
           [(''max_new_tokens'', PInt 50), (''num_beams'', PInt 4),
            (''early_stopping'', PBool True)],
         Call_decode (Obj 2) (Obj 6) [(''skip_special_tokens'', PBool True)]],
        Inr '' A summary. '')
   \<and> (\<exists>ev \<in> set (fst (snd (summarize library_ok (init default_model_name) ''X'' ''zero-shot'' 50))).
       is_generate ev)
   \<and> filter is_generate
        (fst (snd (summarize library_ok (init default_model_name) ''X'' ''zero-shot'' 50))) =
       [Call_generate (Obj 1) (Obj 4)
          [(''max_new_tokens'', PInt 50), (''num_beams'', PInt 4), (''early_stopping'', PBool True)]]
   \<and> filter is_decode
        (fst (snd (summarize library_ok (init default_model_name) ''X'' ''zero-shot'' 50))) =
       [Call_decode (Obj 2) (Obj 6) [(''skip_special_tokens'', PBool True)]]
   \<and> snd (snd (summarize library_ok (init default_model_name) ''X'' ''zero-shot'' 50)) =
       Inr '' A summary. ''"
proof -
  let ?L = "\<lparr>model_name = default_model_name, model = Some (Obj 1),
              tokenizer = Some (Obj 2), is_loaded = True\<rparr>"
  let ?p = "''Summarize the following conversation:\<newline>\<newline>X\<newline>\<newline>Summary:''"
  have p: "create_prompt s ''X'' ''zero-shot'' = ?p" for s
    by (simp add: create_prompt_def)
  have h1: "(if is_loaded ?L then (?L, [], Inr ()) else load_model library_ok ?L) =
              (?L, [], Inr ())" by simp
  have h2: "tokenizer_call library_ok (Obj 2) ?p
       [(''return_tensors'', PStr ''pt''), (''truncation'', PBool True)] = Inr (Obj 3)"
    by (simp add: library_ok_def)
  have h3: "getitem library_ok (Obj 3) (PStr ''input_ids'') = Inr (Obj 4)"
    by (simp add: library_ok_def)
  have A: "summarize library_ok ?L ''X'' ''zero-shot'' 50 =
       (?L,
        [Call_tokenizer (Obj 2) ?p
           [(''return_tensors'', PStr ''pt''), (''truncation'', PBool True)],
         Call_generate (Obj 1) (Obj 4)
           [(''max_new_tokens'', PInt 50), (''num_beams'', PInt 4),
            (''early_stopping'', PBool True)],
         Call_decode (Obj 2) (Obj 6) [(''skip_special_tokens'', PBool True)]],
        Inr '' A summary. '')"
    using h1 h2 h3
      summarize_generation [where self = ?L and ext = library_ok and ?self1.0 = ?L
        and ?tr1.0 = "[]" and t = "Obj 2" and mo = "Obj 1" and d = "''X''"
        and m = "''zero-shot''" and inputs = "Obj 3" and ids = "Obj 4" and n = 50,
        THEN conjunct1]
    by (simp add: p library_ok_def)
  let ?S = "summarize library_ok (init default_model_name) ''X'' ''zero-shot'' 50"
  have eq: "?S = (fst ?S, fst (snd ?S), snd (snd ?S))" by simp
  have reach: "\<exists>ev \<in> set (fst (snd ?S)). is_generate ev"
    unfolding summarize_library_ok by simp
  from summarize_generation [where self = "init default_model_name" and ext = library_ok
      and d = "''X''" and m = "''zero-shot''" and n = 50 and self' = "fst ?S"
      and tr = "fst (snd ?S)" and r = "snd (snd ?S)", THEN conjunct2] eq reach
  obtain t mo inputs ids where
    h: "tokenizer (fst ?S) = Some t" "model (fst ?S) = Some mo"
       "tokenizer_call library_ok t (create_prompt (fst ?S) ''X'' ''zero-shot'')
          [(''return_tensors'', PStr ''pt''), (''truncation'', PBool True)] = Inr inputs"
       "getitem library_ok inputs (PStr ''input_ids'') = Inr ids"
       "filter is_generate (fst (snd ?S)) =
          [Call_generate mo ids
             [(''max_new_tokens'', PInt 50), (''num_beams'', PInt 4),
              (''early_stopping'', PBool True)]]"
       "snd (snd ?S) =
          (case model_generate library_ok mo ids
                  [(''max_new_tokens'', PInt 50), (''num_beams'', PInt 4),
                   (''early_stopping'', PBool True)] of
             Inl e \<Rightarrow> Inl e
           | Inr outputs \<Rightarrow>
               (case getitem library_ok outputs (PInt 0) of
                  Inl e \<Rightarrow> Inl e
                | Inr sequence \<Rightarrow>
                    tokenizer_decode library_ok t sequence [(''skip_special_tokens'', PBool True)]))"
       "filter is_decode (fst (snd ?S)) =
          (case model_generate library_ok mo ids
                  [(''max_new_tokens'', PInt 50), (''num_beams'', PInt 4),
                   (''early_stopping'', PBool True)] of
             Inl e \<Rightarrow> []
           | Inr outputs \<Rightarrow>
               (case getitem library_ok outputs (PInt 0) of
                  Inl e \<Rightarrow> []
                | Inr sequence \<Rightarrow>
                    [Call_decode t sequence [(''skip_special_tokens'', PBool True)]]))"
    by blast
  have t: "t = Obj 2" and mo: "mo = Obj 1"
    using h(1,2) unfolding summarize_library_ok by simp_all
  have inputs: "inputs = Obj 3" using h(3) by (simp add: library_ok_def)
  have ids: "ids = Obj 4" using h(4) unfolding inputs by (simp add: library_ok_def)
  have g: "filter is_generate (fst (snd ?S)) =
       [Call_generate (Obj 1) (Obj 4)
          [(''max_new_tokens'', PInt 50), (''num_beams'', PInt 4), (''early_stopping'', PBool True)]]"
    using h(5) unfolding mo ids .
  have d: "filter is_decode (fst (snd ?S)) =
       [Call_decode (Obj 2) (Obj 6) [(''skip_special_tokens'', PBool True)]]"
    using h(7) unfolding t mo ids by (simp add: library_ok_def)
  have r: "snd (snd ?S) = Inr '' A summary. ''"
    using h(6) unfolding t mo ids by (simp add: library_ok_def)
  from h1 h2 h3 A reach g d r show ?thesis by (intro conjI)
qed

section \<open>The prompt builder: properties\<close>

subsection \<open>Counting occurrences\<close>

lemma occurrences_pos_iff: "0 < occurrences p xs \<longleftrightarrow> sublist p xs"
  by (induction xs) (auto simp: sublist_Cons_right)

lemma occurrences_zero_iff: "occurrences p xs = 0 \<longleftrightarrow> \<not> sublist p xs"
  using occurrences_pos_iff [of p xs] by auto

lemma occurrences_skip:
  "c \<notin> set ys \<Longrightarrow> occurrences (c # p) (ys @ zs) = occurrences (c # p) zs"
  by (induction ys) auto

lemma prefix_append_tail:
  assumes "p \<noteq> []" "last p \<notin> set ss" "prefix p (w @ ss)"
  shows "prefix p w"
proof -
  from assms(3) consider "prefix p w" | us where "p = w @ us" "prefix us ss"
    by (auto simp: prefix_append)
  then show ?thesis
  proof cases
    case 1 then show ?thesis .
  next
    case 2
    show ?thesis
    proof (cases "us = []")
      case True with 2 show ?thesis by simp
    next
      case False
      then have "last p = last us" using 2 by simp
      moreover have "last us \<in> set us" using False by simp
      moreover have "set us \<subseteq> set ss" using 2(2) by (rule set_mono_prefix)
      ultimately show ?thesis using assms(2) by auto
    qed
  qed
qed

lemma occurrences_tail:
  assumes "p \<noteq> []" "last p \<notin> set ss"
  shows "occurrences p (w @ ss) = occurrences p w"
proof (induction w)
  case Nil
  have "\<not> sublist p ss"
  proof
    assume "sublist p ss"
    then have "set p \<subseteq> set ss" by (rule set_mono_sublist)
    moreover have "last p \<in> set p" using assms(1) by simp
    ultimately show False using assms(2) by auto
  qed
  then show ?case using assms(1) by (simp add: occurrences_zero_iff)
next
  case (Cons x w)
  have "prefix p ((x # w) @ ss) \<longleftrightarrow> prefix p (x # w)"
  proof
    assume "prefix p ((x # w) @ ss)"
    then show "prefix p (x # w)" by (rule prefix_append_tail [OF assms])
  next
    assume "prefix p (x # w)"
    then show "prefix p ((x # w) @ ss)" by (rule prefix_prefix)
  qed
  then show ?case using Cons by simp
qed

lemma one_shot_example_hd:
  "\<exists>t. get_one_shot_example self = CHR ''D'' # t \<and> CHR ''D'' \<notin> set t"
  unfolding get_one_shot_example_def by simp

lemma one_shot_example_last:
  "get_one_shot_example self \<noteq> [] \<and> last (get_one_shot_example self) = CHR ''.''"
  unfolding get_one_shot_example_def by simp

lemma occurrences_one_shot:
  "occurrences (get_one_shot_example self) (create_prompt self d ''one-shot'') =
     1 + occurrences (get_one_shot_example self) (''Dialogue:\<newline>'' @ d)"
proof -
  obtain t where t: "get_one_shot_example self = CHR ''D'' # t" "CHR ''D'' \<notin> set t"
    using one_shot_example_hd by blast
  let ?ex = "get_one_shot_example self"
  let ?w = "''Dialogue:\<newline>'' @ d"
  have cp: "create_prompt self d ''one-shot'' = ?ex @ ''\<newline>\<newline>'' @ ?w @ ''\<newline>\<newline>Summary:''"
    unfolding create_prompt_def Let_def by simp
  have "occurrences ?ex (?ex @ ''\<newline>\<newline>'' @ ?w @ ''\<newline>\<newline>Summary:'')
        = 1 + occurrences ?ex ((t @ ''\<newline>\<newline>'') @ ?w @ ''\<newline>\<newline>Summary:'')"
    by (simp add: t(1))
  also have "occurrences ?ex ((t @ ''\<newline>\<newline>'') @ ?w @ ''\<newline>\<newline>Summary:'')
        = occurrences ?ex (?w @ ''\<newline>\<newline>Summary:'')"
    unfolding t(1) by (rule occurrences_skip) (use t(2) in simp)
  also have "\<dots> = occurrences ?ex ?w"
    by (rule occurrences_tail) (simp_all add: one_shot_example_last)
  finally show ?thesis unfolding cp .
qed

subsection \<open>The four templates\<close>

lemma create_prompt_shape: "\<exists>ps ss. create_prompt self d m = ps @ d @ ss"
proof -
  have z: "create_prompt self d ''zero-shot'' =
      ''Summarize the following conversation:\<newline>\<newline>'' @ d @ ''\<newline>\<newline>Summary:''"
    by (simp add: create_prompt_def)
  have o: "create_prompt self d ''one-shot'' =
      (get_one_shot_example self @ ''\<newline>\<newline>Dialogue:\<newline>'') @ d @ ''\<newline>\<newline>Summary:''"
    by (simp add: create_prompt_def Let_def)
  have f: "create_prompt self d ''few-shot'' =
      (get_few_shot_examples self @ ''\<newline>\<newline>Dialogue:\<newline>'') @ d @ ''\<newline>\<newline>Summary:''"
    by (simp add: create_prompt_def Let_def)
  have e: "create_prompt self d m = ''Summarize this dialogue: '' @ d @ []"
    if "m \<noteq> ''zero-shot''" "m \<noteq> ''one-shot''" "m \<noteq> ''few-shot''"
    using that by (simp add: create_prompt_def)
  consider "m = ''zero-shot''" | "m = ''one-shot''" | "m = ''few-shot''"
    | "m \<noteq> ''zero-shot''" "m \<noteq> ''one-shot''" "m \<noteq> ''few-shot''"
    by blast
  then show ?thesis
  proof cases
    case 1 show ?thesis unfolding 1 z by (intro exI) (rule refl)
  next
    case 2 show ?thesis unfolding 2 o by (intro exI) (rule refl)
  next
    case 3 show ?thesis unfolding 3 f by (intro exI) (rule refl)
  next
    case 4 show ?thesis unfolding e [OF 4] by (intro exI) (rule refl)
  qed
qed

text \<open>
  C6. The prompt builder is a function of the dialogue and the method alone: it returns a
  string for every dialogue and every method (the empty ones and unknown methods too), the
  same string on whatever object it is called, it changes nothing, and the string it returns
  contains the dialogue.
\<close>

theorem create_prompt_pure_total:
  "create_prompt self d m = create_prompt self' d m \<and> sublist d (create_prompt self d m)"
proof
  show "create_prompt self d m = create_prompt self' d m"
    unfolding create_prompt_def get_few_shot_examples_def get_one_shot_example_def ..
  show "sublist d (create_prompt self d m)"
    unfolding sublist_def by (rule create_prompt_shape)
qed

text \<open>
  C7. With method \<^verbatim>\<open>"zero-shot"\<close> the prompt is the instruction line, a blank line, the
  dialogue, a blank line and \<^verbatim>\<open>Summary:\<close>, for every dialogue; for the dialogue \<^verbatim>\<open>X\<close> it is
  the string of the specification.
\<close>

theorem create_prompt_zero_shot:
  "create_prompt self d ''zero-shot'' =
     ''Summarize the following conversation:'' @ ''\<newline>'' @ ''\<newline>'' @ d @
     ''\<newline>'' @ ''\<newline>'' @ ''Summary:''
   \<and> create_prompt self ''X'' ''zero-shot'' =
     ''Summarize the following conversation:\<newline>\<newline>X\<newline>\<newline>Summary:''"
  unfolding create_prompt_def by simp

lemma occurrences_dialogue_line:
  "occurrences (get_one_shot_example self) (''Dialogue:\<newline>'' @ d) =
     (if prefix (get_one_shot_example self) (''Dialogue:\<newline>'' @ d) then 1 else 0) +
     occurrences (get_one_shot_example self) d"
proof -
  obtain t where t: "get_one_shot_example self = CHR ''D'' # t"
    using one_shot_example_hd by blast
  have "occurrences (CHR ''D'' # t) (''ialogue:\<newline>'' @ d) = occurrences (CHR ''D'' # t) d"
    by (rule occurrences_skip) simp
  then show ?thesis unfolding t by simp
qed

lemma not_sublist_longer: "length ys < length xs \<Longrightarrow> \<not> sublist xs ys"
  using sublist_length_le [of xs ys] by auto

text \<open>
  C8, as amended. With method \<^verbatim>\<open>"one-shot"\<close> the prompt is the Tom/watch example, then
  \<^verbatim>\<open>"\n\nDialogue:\n"\<close>, the dialogue and \<^verbatim>\<open>"\n\nSummary:"\<close>, so it ends with the last three.
  It contains exactly one occurrence of the example if and only if the dialogue does not
  contain the example and the line \<^verbatim>\<open>"Dialogue:\n"\<close> followed by the dialogue does not begin
  with the example (the example itself begins with that line).
\<close>

theorem create_prompt_one_shot:
  "create_prompt self d ''one-shot'' =
     get_one_shot_example self @ ''\<newline>\<newline>Dialogue:\<newline>'' @ d @ ''\<newline>\<newline>Summary:''
   \<and> suffix (''\<newline>\<newline>Dialogue:\<newline>'' @ d @ ''\<newline>\<newline>Summary:'') (create_prompt self d ''one-shot'')
   \<and> (occurrences (get_one_shot_example self) (create_prompt self d ''one-shot'') = 1
        \<longleftrightarrow> \<not> sublist (get_one_shot_example self) d \<and>
            \<not> prefix (get_one_shot_example self) (''Dialogue:\<newline>'' @ d))"
proof -
  have cp: "create_prompt self d ''one-shot'' =
     get_one_shot_example self @ ''\<newline>\<newline>Dialogue:\<newline>'' @ d @ ''\<newline>\<newline>Summary:''"
    unfolding create_prompt_def Let_def by simp
  have sf: "suffix (''\<newline>\<newline>Dialogue:\<newline>'' @ d @ ''\<newline>\<newline>Summary:'') (create_prompt self d ''one-shot'')"
    unfolding cp by (rule suffix_appendI) simp
  have oc: "occurrences (get_one_shot_example self) (create_prompt self d ''one-shot'') = 1
        \<longleftrightarrow> \<not> sublist (get_one_shot_example self) d \<and>
            \<not> prefix (get_one_shot_example self) (''Dialogue:\<newline>'' @ d)"
    unfolding occurrences_one_shot occurrences_dialogue_line
    using occurrences_zero_iff [of "get_one_shot_example self" d]
    by auto
  from cp sf oc show ?thesis by blast
qed

text \<open>
  The dialogue \<^verbatim>\<open>X\<close> meets both conditions, and its prompt has one occurrence.
\<close>

theorem create_prompt_one_shot_witness:
  "\<not> sublist (get_one_shot_example (init default_model_name)) ''X''
   \<and> \<not> prefix (get_one_shot_example (init default_model_name)) (''Dialogue:\<newline>'' @ ''X'')
   \<and> occurrences (get_one_shot_example (init default_model_name))
        (create_prompt (init default_model_name) ''X'' ''one-shot'') = 1"
proof -
  have a: "\<not> sublist (get_one_shot_example (init default_model_name)) ''X''"
    by (rule not_sublist_longer) (simp add: get_one_shot_example_def)
  have b: "\<not> prefix (get_one_shot_example (init default_model_name)) (''Dialogue:\<newline>'' @ ''X'')"
    by (simp add: get_one_shot_example_def)
  show ?thesis
    using a b create_prompt_one_shot [of "init default_model_name" "''X''"] by blast
qed

text \<open>
  C8 as stated fails. The dialogue below is the example without its first line
  \<^verbatim>\<open>"Dialogue:\n"\<close>: it does not contain the example, being shorter, and the builder's own
  \<^verbatim>\<open>"Dialogue:\n"\<close> in front of it completes a second occurrence.
\<close>

theorem one_occurrence_counterexample:
  "\<not> sublist (get_one_shot_example (init default_model_name))
      ''#Person1#: What time is it, Tom?\<newline>#Person2#: Just a minute. It's ten to nine by my watch.\<newline>#Person1#: Is it? I had no idea it was so late. I must be off now.\<newline>#Person2#: What's the hurry?\<newline>#Person1#: I must catch the nine-thirty train.\<newline>#Person2#: You've plenty of time yet. The railway station is very close.\<newline>\<newline>Summary: #Person1# is in a hurry to catch a train. Tom tells #Person1# there is plenty of time.''
   \<and> occurrences (get_one_shot_example (init default_model_name))
       (create_prompt (init default_model_name)
          ''#Person1#: What time is it, Tom?\<newline>#Person2#: Just a minute. It's ten to nine by my watch.\<newline>#Person1#: Is it? I had no idea it was so late. I must be off now.\<newline>#Person2#: What's the hurry?\<newline>#Person1#: I must catch the nine-thirty train.\<newline>#Person2#: You've plenty of time yet. The railway station is very close.\<newline>\<newline>Summary: #Person1# is in a hurry to catch a train. Tom tells #Person1# there is plenty of time.''
          ''one-shot'') = 2"
proof -
  let ?s = "init default_model_name"
  let ?d = "''#Person1#: What time is it, Tom?\<newline>#Person2#: Just a minute. It's ten to nine by my watch.\<newline>#Person1#: Is it? I had no idea it was so late. I must be off now.\<newline>#Person2#: What's the hurry?\<newline>#Person1#: I must catch the nine-thirty train.\<newline>#Person2#: You've plenty of time yet. The railway station is very close.\<newline>\<newline>Summary: #Person1# is in a hurry to catch a train. Tom tells #Person1# there is plenty of time.''"
  have e: "''Dialogue:\<newline>'' @ ?d = get_one_shot_example ?s"
    by (simp add: get_one_shot_example_def)
  have a: "\<not> sublist (get_one_shot_example ?s) ?d"
    by (rule not_sublist_longer) (simp add: get_one_shot_example_def)
  have "occurrences (get_one_shot_example ?s) (''Dialogue:\<newline>'' @ ?d) = 1 + 0"
    unfolding occurrences_dialogue_line using a 
    by (simp only: e prefix_order.order_refl if_True occurrences_zero_iff [symmetric])
  then have "occurrences (get_one_shot_example ?s) (create_prompt ?s ?d ''one-shot'') = 2"
    unfolding occurrences_one_shot by simp
  with a show ?thesis by blast
qed

text \<open>
  C9. With method \<^verbatim>\<open>"few-shot"\<close> the prompt is the Tom/watch example, a blank line, the
  May/picnic example, then \<^verbatim>\<open>"\n\nDialogue:\n"\<close>, the dialogue and \<^verbatim>\<open>"\n\nSummary:"\<close>; the
  two examples are literals of the program, the first being the one-shot example, and do not
  depend on the dialogue.
\<close>

theorem create_prompt_few_shot:
  "create_prompt self d ''few-shot'' =
     ''Dialogue:\<newline>#Person1#: What time is it, Tom?\<newline>#Person2#: Just a minute. It's ten to nine by my watch.\<newline>#Person1#: Is it? I had no idea it was so late. I must be off now.\<newline>#Person2#: What's the hurry?\<newline>#Person1#: I must catch the nine-thirty train.\<newline>#Person2#: You've plenty of time yet. The railway station is very close.\<newline>\<newline>Summary: #Person1# is in a hurry to catch a train. Tom tells #Person1# there is plenty of time.''
     @ ''\<newline>\<newline>'' @
     ''Dialogue:\<newline>#Person1#: May, do you mind helping me prepare for the picnic?\<newline>#Person2#: Sure. Have you checked the weather report?\<newline>#Person1#: Yes. It says it will be sunny all day.\<newline>\<newline>Summary: Mom asks May to help prepare for the picnic and May agrees.''
     @ ''\<newline>\<newline>Dialogue:\<newline>'' @ d @ ''\<newline>\<newline>Summary:''
   \<and> get_few_shot_examples self =
       get_one_shot_example self @ ''\<newline>\<newline>'' @
       ''Dialogue:\<newline>#Person1#: May, do you mind helping me prepare for the picnic?\<newline>#Person2#: Sure. Have you checked the weather report?\<newline>#Person1#: Yes. It says it will be sunny all day.\<newline>\<newline>Summary: Mom asks May to help prepare for the picnic and May agrees.''"
  unfolding create_prompt_def get_few_shot_examples_def get_one_shot_example_def Let_def
  by simp

text \<open>
  C10. For every method other than exactly \<^verbatim>\<open>"zero-shot"\<close>, \<^verbatim>\<open>"one-shot"\<close> and
  \<^verbatim>\<open>"few-shot"\<close> the prompt is \<^verbatim>\<open>"Summarize this dialogue: "\<close> followed by the dialogue.
\<close>

theorem create_prompt_fallback:
  "m \<noteq> ''zero-shot'' \<Longrightarrow> m \<noteq> ''one-shot'' \<Longrightarrow> m \<noteq> ''few-shot'' \<Longrightarrow>
     create_prompt self d m = ''Summarize this dialogue: '' @ d"
  unfolding create_prompt_def by simp

text \<open>
  The methods \<^verbatim>\<open>"invalid"\<close>, \<^verbatim>\<open>"Zero-Shot"\<close> and the empty method all fall through.
\<close>

theorem create_prompt_fallback_witness:
  "''invalid'' \<noteq> ''zero-shot'' \<and> ''invalid'' \<noteq> ''one-shot'' \<and> ''invalid'' \<noteq> ''few-shot''
   \<and> create_prompt (init default_model_name) ''X'' ''invalid'' = ''Summarize this dialogue: X''
   \<and> create_prompt (init default_model_name) ''X'' ''Zero-Shot'' = ''Summarize this dialogue: X''
   \<and> create_prompt (init default_model_name) ''X'' '''' = ''Summarize this dialogue: X''"
proof -
  have a: "''invalid'' \<noteq> ''zero-shot''" "''invalid'' \<noteq> ''one-shot''" "''invalid'' \<noteq> ''few-shot''"
    by simp_all
  have b: "''Zero-Shot'' \<noteq> ''zero-shot''" "''Zero-Shot'' \<noteq> ''one-shot''"
    "''Zero-Shot'' \<noteq> ''few-shot''"
    by simp_all
  have c: "'''' \<noteq> ''zero-shot''" "'''' \<noteq> ''one-shot''" "'''' \<noteq> ''few-shot''"
    by simp_all
  show ?thesis
    using a create_prompt_fallback [OF a, of "init default_model_name" "''X''"]
      create_prompt_fallback [OF b, of "init default_model_name" "''X''"]
      create_prompt_fallback [OF c, of "init default_model_name" "''X''"]
    by simp
qed

end
